theory Spec2Isabelle
  imports Complex_Main
begin

section \<open>Data model (app/schemas.py, app/models.py)\<close>

text \<open>
  Identifiers are UUIDs in the source; only their equality is ever used, so they are
  natural numbers here. A \<open>datetime\<close> is a number of microseconds (the resolution
  of Python's \<open>datetime\<close>), so that \<open>timedelta(days=d)\<close> is \<open>d * 86400000000\<close>.
\<close>

type_synonym uuid = nat
type_synonym datetime = int

datatype ExpenseStatus =
  ExpenseStatus_draft | ExpenseStatus_pending | ExpenseStatus_approved | ExpenseStatus_rejected

datatype ApprovalType = ApprovalType_compulsory | ApprovalType_necessary

datatype ApprovalStatus =
  ApprovalStatus_pending | ApprovalStatus_approved | ApprovalStatus_rejected

datatype NotificationType =
  NotificationType_invite | NotificationType_password_reset
  | NotificationType_expense_submitted | NotificationType_expense_approved
  | NotificationType_expense_rejected | NotificationType_overdue_approval

datatype AuditAction =
  AuditAction_create | AuditAction_update | AuditAction_delete
  | AuditAction_approve | AuditAction_reject

record User =
  User_id :: uuid
  User_company_id :: uuid
  User_is_active :: bool

record ApprovalRule =
  ApprovalRule_id :: uuid
  ApprovalRule_company_id :: uuid
  ApprovalRule_category_id :: "uuid option"
  ApprovalRule_user_id :: uuid
  ApprovalRule_approval_type :: ApprovalType
  ApprovalRule_is_sequential :: bool
  ApprovalRule_order_index :: int
  ApprovalRule_is_active :: bool

record Expense =
  Expense_id :: uuid
  Expense_company_id :: uuid
  Expense_user_id :: uuid
  Expense_category_id :: uuid
  Expense_status :: ExpenseStatus

record Approval =
  Approval_id :: uuid
  Approval_expense_id :: uuid
  Approval_approver_id :: uuid
  Approval_status :: ApprovalStatus
  Approval_comments :: "string option"
  Approval_approved_at :: "datetime option"
  Approval_created_at :: datetime

text \<open>
  Of a notification and of an audit entry the model keeps who it is for and what it is
  about; the message text and the metadata dictionary are not read by any operation.
\<close>

record Notification =
  Notification_user_id :: uuid
  Notification_type :: NotificationType
  Notification_title :: string

record AuditLog =
  AuditLog_company_id :: uuid
  AuditLog_user_id :: uuid
  AuditLog_action :: AuditAction
  AuditLog_resource_type :: string
  AuditLog_resource_id :: uuid

section \<open>The database session\<close>

text \<open>
  The tables are lists of rows, in the order the database returns them. A SQLAlchemy
  session is the committed database, the session's own view of it (with the changes
  not yet committed), and an oracle for the commits to come: each \<open>db.commit()\<close>
  takes the head of \<open>faults\<close> and raises when it is \<open>True\<close>; an empty oracle
  means that no commit fails. \<open>next_uuid\<close> stands for \<open>uuid4\<close>.
\<close>

record Store =
  users :: "User list"
  approval_rules :: "ApprovalRule list"
  expenses :: "Expense list"
  approvals :: "Approval list"
  notifications :: "Notification list"
  audit_logs :: "AuditLog list"

record Session =
  committed :: Store
  working :: Store
  faults :: "bool list"
  next_uuid :: uuid

datatype error = PersistenceError | AttributeError | TypeError | IntegrityError | LookupError

definition commit :: "Session \<Rightarrow> (error + unit) \<times> Session" where
  "commit s =
     (case faults s of
        [] \<Rightarrow> (Inr (), s\<lparr>committed := working s\<rparr>)
      | b # bs \<Rightarrow>
          (if b then (Inl PersistenceError, s\<lparr>faults := bs\<rparr>)
           else (Inr (), s\<lparr>committed := working s, faults := bs\<rparr>)))"

definition rollback :: "Session \<Rightarrow> Session" where
  "rollback s = s\<lparr>working := committed s\<rparr>"

text \<open>The first row that satisfies \<open>P\<close> is the object the session hands out; an
  attribute assignment changes that row.\<close>

fun update_first :: "('a \<Rightarrow> bool) \<Rightarrow> ('a \<Rightarrow> 'a) \<Rightarrow> 'a list \<Rightarrow> 'a list" where
  "update_first P f [] = []"
| "update_first P f (x # xs) = (if P x then f x # xs else x # update_first P f xs)"

section \<open>Status aggregation (ApprovalService._calculate_expense_status)\<close>

text \<open>\<open>next((r for r in rules if r.user_id == approval.approver_id), None)\<close>\<close>

definition rule_for :: "ApprovalRule list \<Rightarrow> Approval \<Rightarrow> ApprovalRule option" where
  "rule_for rules approval =
     List.find (\<lambda>r. ApprovalRule_user_id r = Approval_approver_id approval) rules"

definition compulsory_approvals :: "ApprovalRule list \<Rightarrow> Approval list \<Rightarrow> Approval list" where
  "compulsory_approvals rules apps =
     filter (\<lambda>a. case rule_for rules a of
                    None \<Rightarrow> False
                  | Some r \<Rightarrow> ApprovalRule_approval_type r = ApprovalType_compulsory) apps"

definition necessary_approvals :: "ApprovalRule list \<Rightarrow> Approval list \<Rightarrow> Approval list" where
  "necessary_approvals rules apps =
     filter (\<lambda>a. case rule_for rules a of
                    None \<Rightarrow> False
                  | Some r \<Rightarrow> ApprovalRule_approval_type r \<noteq> ApprovalType_compulsory
                              \<and> ApprovalRule_approval_type r = ApprovalType_necessary) apps"

text \<open>The loop over the compulsory approvals: \<open>Some\<close> is a \<open>return\<close> from inside
  the loop, \<open>None\<close> is the loop running to its end.\<close>

fun check_compulsory :: "Approval list \<Rightarrow> ExpenseStatus option" where
  "check_compulsory [] = None"
| "check_compulsory (approval # rest) =
     (if Approval_status approval = ApprovalStatus_rejected then Some ExpenseStatus_rejected
      else if Approval_status approval = ApprovalStatus_pending then Some ExpenseStatus_pending
      else check_compulsory rest)"

definition count_status :: "ApprovalStatus \<Rightarrow> Approval list \<Rightarrow> nat" where
  "count_status st apps = length (filter (\<lambda>a. Approval_status a = st) apps)"

text \<open>
  \<open>(necessary_approved / total_necessary) * 100 if total_necessary > 0 else 0\<close>.
  Python computes this in double precision; the model computes it exactly.
\<close>

definition approval_percentage :: "nat \<Rightarrow> nat \<Rightarrow> real" where
  "approval_percentage necessary_approved total_necessary =
     (if total_necessary > 0 then (real necessary_approved / real total_necessary) * 100 else 0)"

definition status_from_groups :: "Approval list \<Rightarrow> Approval list \<Rightarrow> ExpenseStatus" where
  "status_from_groups compulsory necessary =
     (case check_compulsory compulsory of
        Some st \<Rightarrow> st
      | None \<Rightarrow>
          (if count_status ApprovalStatus_approved compulsory < length compulsory
           then ExpenseStatus_pending
           else if necessary \<noteq> []
                   \<and> approval_percentage (count_status ApprovalStatus_approved necessary)
                         (length necessary) < 60
           then ExpenseStatus_rejected
           else ExpenseStatus_approved))"

text \<open>
  The two queries of the function are reads of the session, which the model takes to
  succeed; the handler that answers \<open>pending\<close> to an exception is therefore
  never entered here.
\<close>

definition expense_approvals :: "Expense \<Rightarrow> Session \<Rightarrow> Approval list" where
  "expense_approvals expense s =
     filter (\<lambda>a. Approval_expense_id a = Expense_id expense) (approvals (working s))"

definition category_rules :: "Expense \<Rightarrow> Session \<Rightarrow> ApprovalRule list" where
  "category_rules expense s =
     filter (\<lambda>r. ApprovalRule_category_id r = Some (Expense_category_id expense)
                 \<and> ApprovalRule_is_active r) (approval_rules (working s))"

definition calculate_expense_status :: "Expense \<Rightarrow> Session \<Rightarrow> ExpenseStatus" where
  "calculate_expense_status expense s =
     (let apps = expense_approvals expense s in
      if apps = [] then ExpenseStatus_pending
      else let rules = category_rules expense s
           in status_from_groups (compulsory_approvals rules apps)
                (necessary_approvals rules apps))"

section \<open>Collaborators: notification and audit services\<close>

text \<open>
  \<open>NotificationService.create_notification\<close> and \<open>AuditService.log_action\<close>
  add their row to the session and commit the session themselves, which also commits
  whatever the caller has added or changed so far. When the commit raises they roll
  the session back and re-raise. \<open>db.refresh\<close> re-reads the row just written, and
  \<open>_send_email_notification\<close> catches its own exceptions and changes no table.
\<close>

definition add_notification :: "Notification \<Rightarrow> Session \<Rightarrow> Session" where
  "add_notification n s =
     s\<lparr>working := (working s)\<lparr>notifications := notifications (working s) @ [n]\<rparr>\<rparr>"

definition create_notification ::
  "uuid \<Rightarrow> NotificationType \<Rightarrow> string \<Rightarrow> Session \<Rightarrow> (error + Notification) \<times> Session" where
  "create_notification user_id type title s =
     (let notification = \<lparr>Notification_user_id = user_id, Notification_type = type,
                           Notification_title = title\<rparr>
      in case commit (add_notification notification s) of
           (Inl e, s') \<Rightarrow> (Inl e, rollback s')
         | (Inr _, s') \<Rightarrow> (Inr notification, s'))"

definition add_audit_log :: "AuditLog \<Rightarrow> Session \<Rightarrow> Session" where
  "add_audit_log l s =
     s\<lparr>working := (working s)\<lparr>audit_logs := audit_logs (working s) @ [l]\<rparr>\<rparr>"

text \<open>
  The dictionaries \<open>old_values\<close> and \<open>new_values\<close> go into JSON columns and no
  operation reads them back, so a value is kept by the Python type the JSON encoder
  sees: it encodes \<open>None\<close>, numbers, strings and lists of such, and raises
  \<open>TypeError\<close> on a \<open>UUID\<close>. The exception surfaces when the row is flushed, that
  is inside \<open>db.commit()\<close>, before anything is committed.
\<close>

datatype py_value = PyNone | PyInt | PyStr | PyUUID | PyList "py_value list"

fun json_serializable :: "py_value \<Rightarrow> bool" where
  "json_serializable PyNone = True"
| "json_serializable PyInt = True"
| "json_serializable PyStr = True"
| "json_serializable PyUUID = False"
| "json_serializable (PyList vs) = list_all json_serializable vs"

definition json_dumps_ok :: "(string \<times> py_value) list \<Rightarrow> bool" where
  "json_dumps_ok d = list_all (\<lambda>kv. json_serializable (snd kv)) d"

text \<open>
  The callers pass \<open>action\<close> either as a member of \<open>AuditAction\<close> or as a plain
  string. The \<open>Enum\<close> column takes a string that names a member and raises
  \<open>LookupError\<close> on any other; \<open>action.value\<close>, which \<open>log_action\<close> reads for its
  log line after the commit, exists on a member only and raises \<open>AttributeError\<close> on
  a string.
\<close>

datatype action_arg = ActionEnum AuditAction | ActionStr string

definition enum_column :: "action_arg \<Rightarrow> AuditAction option" where
  "enum_column action =
     (case action of
        ActionEnum a \<Rightarrow> Some a
      | ActionStr n \<Rightarrow>
          (if n = ''create'' then Some AuditAction_create
           else if n = ''update'' then Some AuditAction_update
           else if n = ''delete'' then Some AuditAction_delete
           else if n = ''approve'' then Some AuditAction_approve
           else if n = ''reject'' then Some AuditAction_reject
           else None))"

definition action_value :: "action_arg \<Rightarrow> error + string" where
  "action_value action =
     (case action of
        ActionStr n \<Rightarrow> Inl AttributeError
      | ActionEnum a \<Rightarrow>
          Inr (case a of AuditAction_create \<Rightarrow> ''create'' | AuditAction_update \<Rightarrow> ''update''
                       | AuditAction_delete \<Rightarrow> ''delete'' | AuditAction_approve \<Rightarrow> ''approve''
                       | AuditAction_reject \<Rightarrow> ''reject''))"

definition log_action ::
  "uuid \<Rightarrow> uuid \<Rightarrow> action_arg \<Rightarrow> string \<Rightarrow> uuid \<Rightarrow> (string \<times> py_value) list
     \<Rightarrow> (string \<times> py_value) list \<Rightarrow> Session \<Rightarrow> (error + AuditLog) \<times> Session" where
  "log_action company_id user_id action resource_type resource_id old_values new_values s =
     (case enum_column action of
        None \<Rightarrow> (Inl LookupError, rollback s)
      | Some a \<Rightarrow>
          (let audit_log = \<lparr>AuditLog_company_id = company_id, AuditLog_user_id = user_id,
                             AuditLog_action = a, AuditLog_resource_type = resource_type,
                             AuditLog_resource_id = resource_id\<rparr>
           in if \<not> (json_dumps_ok old_values \<and> json_dumps_ok new_values)
              then (Inl TypeError, rollback s)
              else (case commit (add_audit_log audit_log s) of
                      (Inl e, s') \<Rightarrow> (Inl e, rollback s')
                    | (Inr _, s') \<Rightarrow>
                        (case action_value action of
                           Inl e \<Rightarrow> (Inl e, rollback s')
                         | Inr _ \<Rightarrow> (Inr audit_log, s')))))"

section \<open>Workflow creation (ApprovalService.create_approval_workflow)\<close>

definition get_approval_rules :: "uuid \<Rightarrow> uuid \<Rightarrow> Session \<Rightarrow> ApprovalRule list" where
  "get_approval_rules category_id company_id s =
     sort_key ApprovalRule_order_index
       (filter (\<lambda>r. ApprovalRule_category_id r = Some category_id
                   \<and> ApprovalRule_company_id r = company_id
                   \<and> ApprovalRule_is_active r) (approval_rules (working s)))"

definition get_user :: "uuid \<Rightarrow> Session \<Rightarrow> User option" where
  "get_user user_id s = List.find (\<lambda>u. User_id u = user_id) (users (working s))"

text \<open>\<open>db.add(approval)\<close>: the new row gets its id from \<open>uuid4\<close> and its creation
  time from the database clock.\<close>

definition add_approval :: "uuid \<Rightarrow> uuid \<Rightarrow> datetime \<Rightarrow> Session \<Rightarrow> Approval \<times> Session" where
  "add_approval expense_id approver_id now s =
     (let approval = \<lparr>Approval_id = next_uuid s, Approval_expense_id = expense_id,
                       Approval_approver_id = approver_id,
                       Approval_status = ApprovalStatus_pending,
                       Approval_comments = None, Approval_approved_at = None,
                       Approval_created_at = now\<rparr>
      in (approval,
          s\<lparr>working := (working s)\<lparr>approvals := approvals (working s) @ [approval]\<rparr>,
            next_uuid := Suc (next_uuid s)\<rparr>))"

text \<open>
  The table has the constraint \<open>uq_approvals_expense_approver\<close>: a second row for
  the same expense and approver is refused with \<open>IntegrityError\<close>. The insert is
  flushed by the commit inside \<open>create_notification\<close>, which then rolls the session
  back and re-raises before anything of this iteration is committed.
\<close>

definition violates_uq_approvals_expense_approver :: "uuid \<Rightarrow> uuid \<Rightarrow> Session \<Rightarrow> bool" where
  "violates_uq_approvals_expense_approver expense_id approver_id s =
     (filter (\<lambda>a. Approval_expense_id a = expense_id \<and> Approval_approver_id a = approver_id)
        (approvals (working s)) \<noteq> [])"

text \<open>The \<open>for rule in approval_rules\<close> loop; \<open>acc\<close> is the list \<open>approvals\<close>.
  \<open>Inl\<close> is the exception that leaves the loop.\<close>

fun workflow_loop ::
  "Expense \<Rightarrow> datetime \<Rightarrow> ApprovalRule list \<Rightarrow> Approval list \<Rightarrow> Session
     \<Rightarrow> (error + Approval list) \<times> Session" where
  "workflow_loop expense now [] acc s = (Inr acc, s)"
| "workflow_loop expense now (rule # rest) acc s =
     (if \<not> ApprovalRule_is_active rule then workflow_loop expense now rest acc s
      else case get_user (ApprovalRule_user_id rule) s of
             None \<Rightarrow> workflow_loop expense now rest acc s
           | Some approver \<Rightarrow>
               (if \<not> User_is_active approver
                     \<or> User_company_id approver \<noteq> Expense_company_id expense
                then workflow_loop expense now rest acc s
                else if violates_uq_approvals_expense_approver (Expense_id expense)
                          (ApprovalRule_user_id rule) s
                then (Inl IntegrityError, rollback s)
                else case add_approval (Expense_id expense) (ApprovalRule_user_id rule) now s of
                       (approval, s1) \<Rightarrow>
                         (case create_notification (ApprovalRule_user_id rule)
                                 NotificationType_expense_submitted
                                 ''New Expense Approval Required'' s1 of
                            (Inl e, s2) \<Rightarrow> (Inl e, s2)
                          | (Inr _, s2) \<Rightarrow>
                              workflow_loop expense now rest (acc @ [approval]) s2)))"

text \<open>The body of the \<open>try\<close> block, after the early \<open>return []\<close> for no rules.
  The audit entry's \<open>rules_applied\<close> is the list \<open>[rule.id for rule in approval_rules]\<close>
  of \<open>UUID\<close> objects.\<close>

definition create_approval_workflow_body ::
  "Expense \<Rightarrow> datetime \<Rightarrow> ApprovalRule list \<Rightarrow> Session \<Rightarrow> (error + Approval list) \<times> Session" where
  "create_approval_workflow_body expense now rules s =
     (case workflow_loop expense now (sort_key ApprovalRule_order_index rules) [] s of
        (Inl e, s1) \<Rightarrow> (Inl e, s1)
      | (Inr apps, s1) \<Rightarrow>
          (case commit s1 of
             (Inl e, s2) \<Rightarrow> (Inl e, s2)
           | (Inr _, s2) \<Rightarrow>
               (case log_action (Expense_company_id expense) (Expense_user_id expense)
                       (ActionEnum AuditAction_create) ''approval_workflow'' (Expense_id expense)
                       []
                       [(''approval_count'', PyInt),
                        (''rules_applied'', PyList (map (\<lambda>rule. PyUUID) rules))] s2 of
                  (Inl e, s3) \<Rightarrow> (Inl e, s3)
                | (Inr _, s3) \<Rightarrow> (Inr apps, s3))))"

definition create_approval_workflow ::
  "Expense \<Rightarrow> datetime \<Rightarrow> Session \<Rightarrow> Approval list \<times> Session" where
  "create_approval_workflow expense now s =
     (let rules = get_approval_rules (Expense_category_id expense) (Expense_company_id expense) s
      in if rules = [] then ([], s)
         else case create_approval_workflow_body expense now rules s of
                (Inl e, s') \<Rightarrow> ([], rollback s')
              | (Inr apps, s') \<Rightarrow> (apps, s'))"

section \<open>Decision processing (ApprovalService.process_approval)\<close>

definition str_error :: "error \<Rightarrow> string" where
  "str_error e = (case e of PersistenceError \<Rightarrow> ''PersistenceError''
                          | AttributeError \<Rightarrow> ''AttributeError''
                          | TypeError \<Rightarrow> ''TypeError''
                          | IntegrityError \<Rightarrow> ''IntegrityError''
                          | LookupError \<Rightarrow> ''LookupError'')"

definition own_approval :: "uuid \<Rightarrow> User \<Rightarrow> Approval \<Rightarrow> bool" where
  "own_approval approval_id approver a =
     (Approval_id a = approval_id \<and> Approval_approver_id a = User_id approver)"

definition set_approvals :: "Approval list \<Rightarrow> Session \<Rightarrow> Session" where
  "set_approvals apps s = s\<lparr>working := (working s)\<lparr>approvals := apps\<rparr>\<rparr>"

definition set_expenses :: "Expense list \<Rightarrow> Session \<Rightarrow> Session" where
  "set_expenses es s = s\<lparr>working := (working s)\<lparr>expenses := es\<rparr>\<rparr>"

text \<open>
  The result is the pair \<open>(success, error message)\<close> of the source. \<open>approval.expense\<close>
  is the expense row the approval's foreign key names; were it missing, the
  assignment to its status would raise and the handler would return the failure.
\<close>

definition process_approval ::
  "uuid \<Rightarrow> ApprovalStatus \<Rightarrow> string option \<Rightarrow> User \<Rightarrow> datetime \<Rightarrow> Session
     \<Rightarrow> (bool \<times> string option) \<times> Session" where
  "process_approval approval_id status comments approver now s =
     (case List.find (own_approval approval_id approver) (approvals (working s)) of
        None \<Rightarrow> ((False, Some ''Approval not found or access denied''), s)
      | Some approval \<Rightarrow>
          (if Approval_status approval \<noteq> ApprovalStatus_pending
           then ((False, Some ''Approval has already been processed''), s)
           else
             (let s1 = set_approvals
                        (update_first (own_approval approval_id approver)
                           (\<lambda>a. a\<lparr>Approval_status := status, Approval_comments := comments,
                                  Approval_approved_at := Some now\<rparr>)
                           (approvals (working s))) s
              in (case log_action (User_company_id approver) (User_id approver)
                        (ActionEnum (if status = ApprovalStatus_approved then AuditAction_approve
                                     else AuditAction_reject))
                        ''approval'' (Approval_id approval)
                        [(''status'', PyStr)]
                        [(''status'', PyStr),
                         (''comments'', case comments of None \<Rightarrow> PyNone | Some c \<Rightarrow> PyStr),
                         (''approved_at'', PyStr)] s1 of
                    (Inl e, s2) \<Rightarrow> ((False, Some (str_error e)), rollback s2)
                  | (Inr _, s2) \<Rightarrow>
                      (case List.find (\<lambda>e. Expense_id e = Approval_expense_id approval)
                              (expenses (working s2)) of
                         None \<Rightarrow> ((False, Some (str_error AttributeError)), rollback s2)
                       | Some expense \<Rightarrow>
                           (let expense_status = calculate_expense_status expense s2;
                                s3 = set_expenses
                                       (update_first
                                          (\<lambda>e. Expense_id e = Approval_expense_id approval)
                                          (\<lambda>e. e\<lparr>Expense_status := expense_status\<rparr>)
                                          (expenses (working s2))) s2
                            in (case commit s3 of
                                  (Inl e, s4) \<Rightarrow> ((False, Some (str_error e)), rollback s4)
                                | (Inr _, s4) \<Rightarrow>
                                    (case create_notification (Expense_user_id expense)
                                            (if status = ApprovalStatus_approved
                                             then NotificationType_expense_approved
                                             else NotificationType_expense_rejected)
                                            (if status = ApprovalStatus_approved
                                             then ''Expense Approved''
                                             else ''Expense Rejected'') s4 of
                                       (Inl e, s5) \<Rightarrow>
                                         ((False, Some (str_error e)), rollback s5)
                                     | (Inr _, s5) \<Rightarrow> ((True, None), s5)))))))))"

section \<open>Direct update of an approval (api/approvals.py, update_approval)\<close>

text \<open>
  \<open>ApprovalUpdate\<close> has a required \<open>status\<close> and an optional \<open>comments\<close>;
  \<open>dict(exclude_unset=True)\<close> holds \<open>comments\<close> only when the request set it, so the
  outer \<open>option\<close> is "set or not" and the inner one the value. Every field of the
  dictionary is assigned to the approval with \<open>setattr\<close>. The audit call passes the
  action as the string \<open>"update"\<close>.
\<close>

record ApprovalUpdate =
  ApprovalUpdate_status :: ApprovalStatus
  ApprovalUpdate_comments :: "string option option"

datatype HTTPException = HTTP_404_NOT_FOUND | HTTP_500_INTERNAL_SERVER_ERROR

definition setattrs :: "ApprovalUpdate \<Rightarrow> Approval \<Rightarrow> Approval" where
  "setattrs approval_data a =
     (let a1 = a\<lparr>Approval_status := ApprovalUpdate_status approval_data\<rparr>
      in case ApprovalUpdate_comments approval_data of
           None \<Rightarrow> a1
         | Some c \<Rightarrow> a1\<lparr>Approval_comments := c\<rparr>)"

definition update_approval ::
  "uuid \<Rightarrow> ApprovalUpdate \<Rightarrow> User \<Rightarrow> Session \<Rightarrow> (HTTPException + Approval) \<times> Session" where
  "update_approval approval_id approval_data current_user s =
     (case List.find (own_approval approval_id current_user) (approvals (working s)) of
        None \<Rightarrow> (Inl HTTP_404_NOT_FOUND, s)
      | Some approval \<Rightarrow>
          (let s1 = set_approvals
                      (update_first (own_approval approval_id current_user)
                         (setattrs approval_data) (approvals (working s))) s
           in (case commit s1 of
                 (Inl e, s2) \<Rightarrow> (Inl HTTP_500_INTERNAL_SERVER_ERROR, rollback s2)
               | (Inr _, s2) \<Rightarrow>
                   (case log_action (User_company_id current_user) (User_id current_user)
                           (ActionStr ''update'') ''approval'' (Approval_id approval)
                           [(''comments'', case Approval_comments approval of
                                             None \<Rightarrow> PyNone | Some c \<Rightarrow> PyStr),
                            (''status'', PyStr)]
                           ((''status'', PyStr) #
                            (case ApprovalUpdate_comments approval_data of
                               None \<Rightarrow> []
                             | Some c \<Rightarrow> [(''comments'', case c of None \<Rightarrow> PyNone
                                                                   | Some x \<Rightarrow> PyStr)])) s2 of
                      (Inl e, s3) \<Rightarrow> (Inl HTTP_500_INTERNAL_SERVER_ERROR, rollback s3)
                    | (Inr _, s3) \<Rightarrow> (Inr (setattrs approval_data approval), s3)))))"

section \<open>Overdue sweep (ApprovalService.check_overdue_approvals)\<close>

record ApprovalService =
  overdue_threshold_days :: int

definition approval_service :: ApprovalService where
  "approval_service = \<lparr>overdue_threshold_days = 3\<rparr>"

definition timedelta_days :: "int \<Rightarrow> int" where
  "timedelta_days d = d * 86400000000"

definition overdue_rows :: "ApprovalService \<Rightarrow> datetime \<Rightarrow> Session \<Rightarrow> Approval list" where
  "overdue_rows self now s =
     (let cutoff_date = now - timedelta_days (overdue_threshold_days self)
      in filter (\<lambda>a. Approval_status a = ApprovalStatus_pending
                     \<and> Approval_created_at a < cutoff_date) (approvals (working s)))"

text \<open>
  A Python \<open>datetime\<close> is naive or carries a time zone, and subtracting one kind from
  the other raises \<open>TypeError\<close>. \<open>datetime.utcnow()\<close> is naive; \<open>created_at\<close> is
  declared \<open>DateTime(timezone=True)\<close>, so the value loaded from the row carries a
  time zone.
\<close>

datatype py_datetime = Naive datetime | Aware datetime

definition datetime_sub :: "py_datetime \<Rightarrow> py_datetime \<Rightarrow> error + int" where
  "datetime_sub a b =
     (case (a, b) of
        (Naive x, Naive y) \<Rightarrow> Inr (x - y)
      | (Aware x, Aware y) \<Rightarrow> Inr (x - y)
      | (Naive x, Aware y) \<Rightarrow> Inl TypeError
      | (Aware x, Naive y) \<Rightarrow> Inl TypeError)"

definition utcnow :: "datetime \<Rightarrow> py_datetime" where
  "utcnow now = Naive now"

definition loaded_created_at :: "Approval \<Rightarrow> py_datetime" where
  "loaded_created_at approval = Aware (Approval_created_at approval)"

text \<open>\<open>(datetime.utcnow() - approval.created_at).days\<close>, an entry of the metadata of
  the notification.\<close>

definition days_overdue :: "datetime \<Rightarrow> Approval \<Rightarrow> error + int" where
  "days_overdue now approval =
     (case datetime_sub (utcnow now) (loaded_created_at approval) of
        Inl e \<Rightarrow> Inl e
      | Inr delta \<Rightarrow> Inr (delta div 86400000000))"

text \<open>The loop that sends one notification for each overdue approval; the arguments
  of the call are evaluated first.\<close>

fun notify_overdue :: "datetime \<Rightarrow> Approval list \<Rightarrow> Session \<Rightarrow> (error + unit) \<times> Session" where
  "notify_overdue now [] s = (Inr (), s)"
| "notify_overdue now (approval # rest) s =
     (case days_overdue now approval of
        Inl e \<Rightarrow> (Inl e, s)
      | Inr _ \<Rightarrow>
          (case create_notification (Approval_approver_id approval)
                  NotificationType_overdue_approval ''Overdue Approval Required'' s of
             (Inl e, s') \<Rightarrow> (Inl e, s')
           | (Inr _, s') \<Rightarrow> notify_overdue now rest s'))"

definition check_overdue_approvals ::
  "ApprovalService \<Rightarrow> datetime \<Rightarrow> Session \<Rightarrow> Approval list \<times> Session" where
  "check_overdue_approvals self now s =
     (let overdue_approvals = overdue_rows self now s
      in case notify_overdue now overdue_approvals s of
           (Inl e, s') \<Rightarrow> ([], s')
         | (Inr _, s') \<Rightarrow> (overdue_approvals, s'))"

section \<open>Statistics (ApprovalService.get_approval_statistics)\<close>












section \<open>Example states\<close>

text \<open>One company (1), one category (5), one expense (1) submitted by user 10;
  the approvers are users 20 to 25.\<close>

definition example_expense :: Expense where
  "example_expense = \<lparr>Expense_id = 1, Expense_company_id = 1, Expense_user_id = 10,
     Expense_category_id = 5, Expense_status = ExpenseStatus_pending\<rparr>"

definition example_user :: "uuid \<Rightarrow> User" where
  "example_user i = \<lparr>User_id = i, User_company_id = 1, User_is_active = True\<rparr>"

definition example_rule :: "uuid \<Rightarrow> uuid \<Rightarrow> ApprovalType \<Rightarrow> ApprovalRule" where
  "example_rule i u t = \<lparr>ApprovalRule_id = i, ApprovalRule_company_id = 1,
     ApprovalRule_category_id = Some 5, ApprovalRule_user_id = u,
     ApprovalRule_approval_type = t, ApprovalRule_is_sequential = False,
     ApprovalRule_order_index = int i, ApprovalRule_is_active = True\<rparr>"

definition example_approval :: "uuid \<Rightarrow> uuid \<Rightarrow> ApprovalStatus \<Rightarrow> datetime \<Rightarrow> Approval" where
  "example_approval i u st t = \<lparr>Approval_id = i, Approval_expense_id = 1,
     Approval_approver_id = u, Approval_status = st, Approval_comments = None,
     Approval_approved_at = None, Approval_created_at = t\<rparr>"

definition example_session :: "ApprovalRule list \<Rightarrow> Approval list \<Rightarrow> bool list \<Rightarrow> Session" where
  "example_session rules apps fs =
     (let store = \<lparr>users = map example_user [10, 20, 21, 22, 23, 24, 25],
                    approval_rules = rules, expenses = [example_expense],
                    approvals = apps, notifications = [], audit_logs = []\<rparr>
      in \<lparr>committed = store, working = store, faults = fs, next_uuid = 100\<rparr>)"

text \<open>Two compulsory approvers: the first has not decided, the second has rejected.\<close>

definition veto_rules :: "ApprovalRule list" where
  "veto_rules = [example_rule 1 20 ApprovalType_compulsory,
                 example_rule 2 21 ApprovalType_compulsory]"

definition veto_session :: Session where
  "veto_session = example_session veto_rules
     [example_approval 1 20 ApprovalStatus_pending 0,
      example_approval 2 21 ApprovalStatus_rejected 0] []"

text \<open>One compulsory approver who approved, and five necessary approvers of whom
  three approved and two have not decided.\<close>

definition quorum_rules :: "ApprovalRule list" where
  "quorum_rules = [example_rule 1 20 ApprovalType_compulsory,
                   example_rule 2 21 ApprovalType_necessary,
                   example_rule 3 22 ApprovalType_necessary,
                   example_rule 4 23 ApprovalType_necessary,
                   example_rule 5 24 ApprovalType_necessary,
                   example_rule 6 25 ApprovalType_necessary]"

definition partial_session :: Session where
  "partial_session = example_session quorum_rules
     [example_approval 1 20 ApprovalStatus_approved 0,
      example_approval 2 21 ApprovalStatus_approved 0,
      example_approval 3 22 ApprovalStatus_approved 0,
      example_approval 4 23 ApprovalStatus_approved 0,
      example_approval 5 24 ApprovalStatus_pending 0,
      example_approval 6 25 ApprovalStatus_pending 0] []"

text \<open>The same rules after two approvals and three rejections of the necessary
  approvers.\<close>

definition rejected_session :: Session where
  "rejected_session = example_session quorum_rules
     [example_approval 1 20 ApprovalStatus_approved 0,
      example_approval 2 21 ApprovalStatus_approved 0,
      example_approval 3 22 ApprovalStatus_approved 0,
      example_approval 4 23 ApprovalStatus_rejected 0,
      example_approval 5 24 ApprovalStatus_rejected 0,
      example_approval 6 25 ApprovalStatus_rejected 0] []"

text \<open>A freshly submitted expense with two rules and no approval yet; in the second
  session the first commit succeeds and the second one fails.\<close>

definition fresh_session :: Session where
  "fresh_session = example_session veto_rules [] []"

definition failing_session :: Session where
  "failing_session = example_session veto_rules [] [False, True]"

definition no_rules_session :: Session where
  "no_rules_session = example_session [] [] []"

text \<open>An approval that user 20 has already approved.\<close>

definition decided_session :: Session where
  "decided_session = example_session veto_rules
     [(example_approval 1 20 ApprovalStatus_approved 0)
        \<lparr>Approval_approved_at := Some 3600000000\<rparr>] []"

definition reject_update :: ApprovalUpdate where
  "reject_update = \<lparr>ApprovalUpdate_status = ApprovalStatus_rejected,
                     ApprovalUpdate_comments = None\<rparr>"

text \<open>Two pending approvals, created four days and two days before \<open>sweep_now\<close>.\<close>

definition sweep_now :: datetime where
  "sweep_now = timedelta_days 10"

definition sweep_session :: Session where
  "sweep_session = example_session veto_rules
     [example_approval 1 20 ApprovalStatus_pending (timedelta_days 6),
      example_approval 2 21 ApprovalStatus_pending (timedelta_days 8)] []"

text \<open>User 20 has one pending approval, for expense 1, and one decided after two
  hours, for a second expense; both were created before the window that starts at
  day 5.\<close>

definition stats_session :: Session where
  "stats_session =
     (let store = \<lparr>users = map example_user [10, 20, 21],
                    approval_rules = veto_rules,
                    expenses = [example_expense, example_expense\<lparr>Expense_id := 2\<rparr>],
                    approvals =
                      [example_approval 1 20 ApprovalStatus_pending 0,
                       (example_approval 2 20 ApprovalStatus_approved 0)
                         \<lparr>Approval_expense_id := 2, Approval_approved_at := Some 7200000000\<rparr>],
                    notifications = [], audit_logs = []\<rparr>
      in \<lparr>committed = store, working = store, faults = [], next_uuid = 100\<rparr>)"

lemmas example_defs = example_expense_def example_user_def example_rule_def
  example_approval_def example_session_def veto_rules_def veto_session_def
  quorum_rules_def partial_session_def rejected_session_def fresh_session_def
  failing_session_def no_rules_session_def decided_session_def reject_update_def
  sweep_now_def sweep_session_def stats_session_def

lemmas aggregate_defs = calculate_expense_status_def expense_approvals_def
  category_rules_def compulsory_approvals_def necessary_approvals_def rule_for_def
  status_from_groups_def count_status_def approval_percentage_def

lemmas session_defs = commit_def rollback_def log_action_def add_audit_log_def
  create_notification_def add_notification_def set_approvals_def set_expenses_def
  enum_column_def action_value_def json_dumps_ok_def

lemmas decide_defs = process_approval_def update_approval_def own_approval_def setattrs_def
  str_error_def session_defs

lemmas workflow_defs = create_approval_workflow_def create_approval_workflow_body_def
  get_approval_rules_def get_user_def add_approval_def
  violates_uq_approvals_expense_approver_def session_defs

lemmas sweep_defs = check_overdue_approvals_def overdue_rows_def days_overdue_def
  datetime_sub_def utcnow_def loaded_created_at_def timedelta_days_def approval_service_def


section \<open>Properties of the status aggregation\<close>

lemma status_cases:
  "st \<noteq> ApprovalStatus_rejected \<Longrightarrow> st \<noteq> ApprovalStatus_pending \<Longrightarrow> st = ApprovalStatus_approved"
  by (cases st) simp_all

lemma check_compulsory_None:
  "ApprovalStatus_rejected \<notin> Approval_status ` set cs \<Longrightarrow>
   ApprovalStatus_pending \<notin> Approval_status ` set cs \<Longrightarrow> check_compulsory cs = None"
  by (induction cs) auto

lemma count_approved_all:
  "ApprovalStatus_rejected \<notin> Approval_status ` set cs \<Longrightarrow>
   ApprovalStatus_pending \<notin> Approval_status ` set cs \<Longrightarrow>
   count_status ApprovalStatus_approved cs = length cs"
proof (induction cs)
  case Nil
  then show ?case by (simp add: count_status_def)
next
  case (Cons c cs)
  then have "Approval_status c = ApprovalStatus_approved"
    by (intro status_cases) auto
  with Cons show ?case by (simp add: count_status_def)
qed

lemma status_from_groups_gate_open:
  assumes "ApprovalStatus_rejected \<notin> Approval_status ` set cs"
      and "ApprovalStatus_pending \<notin> Approval_status ` set cs"
  shows "status_from_groups cs ns =
           (if ns \<noteq> [] \<and> approval_percentage (count_status ApprovalStatus_approved ns) (length ns) < 60
            then ExpenseStatus_rejected else ExpenseStatus_approved)"
  using assms by (simp add: status_from_groups_def check_compulsory_None count_approved_all)

text \<open>
  Claim C1. When no compulsory approval of the expense is rejected or pending and the
  necessary group is not empty, the aggregation returns \<open>rejected\<close> exactly when
  \<open>approvedCount / totalCount * 100 < 60\<close>, and \<open>approved\<close> otherwise;
  \<open>totalCount\<close> counts every necessary approval, the pending ones included, and
  \<open>approvedCount\<close> the approved ones only.
\<close>

theorem C1_necessary_quorum:
  assumes "ApprovalStatus_rejected \<notin> Approval_status `
             set (compulsory_approvals (category_rules expense s) (expense_approvals expense s))"
      and "ApprovalStatus_pending \<notin> Approval_status `
             set (compulsory_approvals (category_rules expense s) (expense_approvals expense s))"
      and "necessary_approvals (category_rules expense s) (expense_approvals expense s) \<noteq> []"
  shows "calculate_expense_status expense s =
           (if real (count_status ApprovalStatus_approved
                       (necessary_approvals (category_rules expense s) (expense_approvals expense s)))
                 / real (length (necessary_approvals (category_rules expense s)
                                   (expense_approvals expense s))) * 100 < 60
            then ExpenseStatus_rejected else ExpenseStatus_approved)"
proof -
  let ?apps = "expense_approvals expense s"
  let ?ns = "necessary_approvals (category_rules expense s) ?apps"
  from assms(3) have ne: "?apps \<noteq> []"
    by (auto simp: necessary_approvals_def)
  from assms(3) have pos: "length ?ns > 0" by simp
  have "calculate_expense_status expense s =
          status_from_groups (compulsory_approvals (category_rules expense s) ?apps) ?ns"
    using ne by (simp add: calculate_expense_status_def Let_def)
  also have "\<dots> = (if approval_percentage (count_status ApprovalStatus_approved ?ns) (length ?ns) < 60
                   then ExpenseStatus_rejected else ExpenseStatus_approved)"
    using assms by (simp add: status_from_groups_gate_open)
  finally show ?thesis using pos by (simp add: approval_percentage_def)
qed

text \<open>The rejection case of the specification: two of five approved is 40 percent.\<close>

theorem C1_necessary_quorum_witness:
  "ApprovalStatus_rejected \<notin> Approval_status `
     set (compulsory_approvals (category_rules example_expense rejected_session)
            (expense_approvals example_expense rejected_session))
   \<and> ApprovalStatus_pending \<notin> Approval_status `
     set (compulsory_approvals (category_rules example_expense rejected_session)
            (expense_approvals example_expense rejected_session))
   \<and> necessary_approvals (category_rules example_expense rejected_session)
            (expense_approvals example_expense rejected_session) \<noteq> []
   \<and> calculate_expense_status example_expense rejected_session = ExpenseStatus_rejected"
  using C1_necessary_quorum [of example_expense rejected_session]
  by (simp add: example_defs aggregate_defs Let_def)

text \<open>
  Claim C2 says that one rejected compulsory approval makes the result \<open>rejected\<close>
  whatever the other approvals are and in whatever order they are examined. The loop
  returns at the first compulsory approval that is not approved: with a pending one
  before the rejected one the result is \<open>pending\<close>, and the same rows in the
  opposite order give \<open>rejected\<close>.
\<close>

theorem C2_pending_before_rejected:
  "map Approval_status
     (compulsory_approvals (category_rules example_expense veto_session)
        (expense_approvals example_expense veto_session))
     = [ApprovalStatus_pending, ApprovalStatus_rejected]
   \<and> calculate_expense_status example_expense veto_session = ExpenseStatus_pending
   \<and> calculate_expense_status example_expense
        (set_approvals (rev (approvals (working veto_session))) veto_session)
       = ExpenseStatus_rejected"
  by (simp add: example_defs aggregate_defs set_approvals_def Let_def)

text \<open>
  Claim C3 says that with the compulsory approval approved and three of five necessary
  approvals approved (two pending) the result is \<open>pending\<close>. It is not.
\<close>

theorem C3_partial_state_counterexample:
  "map Approval_status
     (compulsory_approvals (category_rules example_expense partial_session)
        (expense_approvals example_expense partial_session)) = [ApprovalStatus_approved]
   \<and> map Approval_status
       (necessary_approvals (category_rules example_expense partial_session)
          (expense_approvals example_expense partial_session))
       = [ApprovalStatus_approved, ApprovalStatus_approved, ApprovalStatus_approved,
          ApprovalStatus_pending, ApprovalStatus_pending]
   \<and> calculate_expense_status example_expense partial_session \<noteq> ExpenseStatus_pending"
  by (simp add: example_defs aggregate_defs Let_def)

text \<open>
  Claim C3, amended. In a state with one compulsory approval, approved, and five
  necessary approvals of which three are approved and none is rejected, the 60 percent
  gate does not reject (\<open>3/5 * 100\<close> is not below 60) and the aggregation returns
  \<open>approved\<close>: a pending necessary approval does not hold the result back.
\<close>

theorem C3_partial_state_approved:
  assumes "compulsory_approvals (category_rules expense s) (expense_approvals expense s) = [c]"
      and "Approval_status c = ApprovalStatus_approved"
      and "length (necessary_approvals (category_rules expense s) (expense_approvals expense s)) = 5"
      and "count_status ApprovalStatus_approved
             (necessary_approvals (category_rules expense s) (expense_approvals expense s)) = 3"
      and "count_status ApprovalStatus_rejected
             (necessary_approvals (category_rules expense s) (expense_approvals expense s)) = 0"
  shows "\<not> approval_percentage 3 5 < 60
         \<and> calculate_expense_status expense s = ExpenseStatus_approved"
proof -
  let ?apps = "expense_approvals expense s"
  let ?ns = "necessary_approvals (category_rules expense s) ?apps"
  from assms(1) have ne: "?apps \<noteq> []"
    by (auto simp: compulsory_approvals_def)
  have pct: "\<not> approval_percentage 3 5 < 60"
    by (simp add: approval_percentage_def)
  have "calculate_expense_status expense s = status_from_groups [c] ?ns"
    using ne assms(1) by (simp add: calculate_expense_status_def Let_def)
  also have "\<dots> = ExpenseStatus_approved"
    using assms(2,3,4) pct by (simp add: status_from_groups_def count_status_def)
  finally show ?thesis using pct by simp
qed

theorem C3_partial_state_approved_witness:
  "compulsory_approvals (category_rules example_expense partial_session)
     (expense_approvals example_expense partial_session)
     = [example_approval 1 20 ApprovalStatus_approved 0]
   \<and> Approval_status (example_approval 1 20 ApprovalStatus_approved 0) = ApprovalStatus_approved
   \<and> length (necessary_approvals (category_rules example_expense partial_session)
        (expense_approvals example_expense partial_session)) = 5
   \<and> count_status ApprovalStatus_approved
        (necessary_approvals (category_rules example_expense partial_session)
           (expense_approvals example_expense partial_session)) = 3
   \<and> count_status ApprovalStatus_rejected
        (necessary_approvals (category_rules example_expense partial_session)
           (expense_approvals example_expense partial_session)) = 0
   \<and> \<not> approval_percentage 3 5 < 60
   \<and> calculate_expense_status example_expense partial_session = ExpenseStatus_approved"
  using C3_partial_state_approved [of example_expense partial_session
          "example_approval 1 20 ApprovalStatus_approved 0"]
  by (simp add: example_defs aggregate_defs Let_def)

text \<open>
  Claim C4. For an expense with no applicable approval rule the workflow creation
  returns the empty list (and leaves the session as it was), and for an expense with
  no approval row the aggregation returns \<open>pending\<close>.
\<close>

theorem C4_nothing_configured:
  "(get_approval_rules (Expense_category_id expense) (Expense_company_id expense) s = []
      \<longrightarrow> create_approval_workflow expense now s = ([], s))
   \<and> (expense_approvals expense s = []
      \<longrightarrow> calculate_expense_status expense s = ExpenseStatus_pending)"
  by (simp add: create_approval_workflow_def calculate_expense_status_def)

theorem C4_nothing_configured_witness:
  "get_approval_rules (Expense_category_id example_expense)
      (Expense_company_id example_expense) no_rules_session = []
   \<and> create_approval_workflow example_expense 0 no_rules_session = ([], no_rules_session)
   \<and> expense_approvals example_expense no_rules_session = []
   \<and> calculate_expense_status example_expense no_rules_session = ExpenseStatus_pending"
  using C4_nothing_configured [of example_expense no_rules_session 0]
  by (simp add: example_defs get_approval_rules_def expense_approvals_def Let_def)

section \<open>Properties of decision processing\<close>

lemma find_update_first:
  "List.find P xs = Some a \<Longrightarrow> P (f a) \<Longrightarrow> List.find P (update_first P f xs) = Some (f a)"
  by (induction xs) (auto split: if_splits)

text \<open>A decision on a pending approval of the caller's own, with no commit failing:
  the call succeeds, the row carries the decision, and everything is committed.\<close>

lemma process_approval_success:
  assumes "faults s = []"
      and "List.find (own_approval approval_id approver) (approvals (working s)) = Some a"
      and "Approval_status a = ApprovalStatus_pending"
      and "List.find (\<lambda>e. Expense_id e = Approval_expense_id a) (expenses (working s)) = Some ex"
  shows "fst (process_approval approval_id status comments approver now s) = (True, None)"
    and "approvals (working (snd (process_approval approval_id status comments approver now s)))
           = update_first (own_approval approval_id approver)
               (\<lambda>a. a\<lparr>Approval_status := status, Approval_comments := comments,
                      Approval_approved_at := Some now\<rparr>) (approvals (working s))"
    and "faults (snd (process_approval approval_id status comments approver now s)) = []"
    and "committed (snd (process_approval approval_id status comments approver now s))
           = working (snd (process_approval approval_id status comments approver now s))"
  using assms by (cases comments; simp add: process_approval_def session_defs Let_def)+

lemma process_approval_stored:
  assumes "faults s = []"
      and "List.find (own_approval approval_id approver) (approvals (working s)) = Some a"
      and "Approval_status a = ApprovalStatus_pending"
      and "List.find (\<lambda>e. Expense_id e = Approval_expense_id a) (expenses (working s)) = Some ex"
  shows "List.find (own_approval approval_id approver)
           (approvals (working (snd (process_approval approval_id status comments approver now s))))
         = Some (a\<lparr>Approval_status := status, Approval_comments := comments,
                    Approval_approved_at := Some now\<rparr>)"
proof -
  from assms(2) have "own_approval approval_id approver a"
    by (auto simp: find_Some_iff)
  then have "own_approval approval_id approver
               (a\<lparr>Approval_status := status, Approval_comments := comments,
                   Approval_approved_at := Some now\<rparr>)"
    by (simp add: own_approval_def)
  with assms(2) show ?thesis
    by (simp add: process_approval_success(2) [OF assms] find_update_first)
qed

lemma process_approval_decided:
  assumes "List.find (own_approval approval_id approver) (approvals (working s)) = Some a"
      and "Approval_status a \<noteq> ApprovalStatus_pending"
  shows "process_approval approval_id status comments approver now s
           = ((False, Some ''Approval has already been processed''), s)"
  using assms by (simp add: process_approval_def)


text \<open>
  Claim C5. Take an approval that is pending and belongs to the approver, and let no
  commit fail. A first decision \<open>d1\<close>, approved or rejected, succeeds; a second call
  by the same approver, whatever its decision, comments and time, fails with
  "Approval has already been processed" and returns the session unchanged; the stored
  status, comments and decided-at timestamp, in the session and in the committed
  database, are those of the first call.
\<close>

theorem C5_decide_twice:
  assumes "faults s = []"
      and "List.find (own_approval approval_id approver) (approvals (working s)) = Some a"
      and "Approval_status a = ApprovalStatus_pending"
      and "List.find (\<lambda>e. Expense_id e = Approval_expense_id a) (expenses (working s)) = Some ex"
      and "d1 = ApprovalStatus_approved \<or> d1 = ApprovalStatus_rejected"
  shows "let s1 = snd (process_approval approval_id d1 c1 approver t1 s) in
           fst (process_approval approval_id d1 c1 approver t1 s) = (True, None)
         \<and> process_approval approval_id d2 c2 approver t2 s1
             = ((False, Some ''Approval has already been processed''), s1)
         \<and> List.find (own_approval approval_id approver) (approvals (working s1))
             = Some (a\<lparr>Approval_status := d1, Approval_comments := c1,
                        Approval_approved_at := Some t1\<rparr>)
         \<and> List.find (own_approval approval_id approver) (approvals (committed s1))
             = Some (a\<lparr>Approval_status := d1, Approval_comments := c1,
                        Approval_approved_at := Some t1\<rparr>)"
proof -
  define s1 where "s1 = snd (process_approval approval_id d1 c1 approver t1 s)"
  let ?a1 = "a\<lparr>Approval_status := d1, Approval_comments := c1, Approval_approved_at := Some t1\<rparr>"
  have ok: "fst (process_approval approval_id d1 c1 approver t1 s) = (True, None)"
    using assms(1-4) by (rule process_approval_success(1))
  have stored: "List.find (own_approval approval_id approver) (approvals (working s1)) = Some ?a1"
    unfolding s1_def using assms(1-4) by (rule process_approval_stored)
  have "committed s1 = working s1"
    unfolding s1_def using assms(1-4) by (rule process_approval_success(4))
  with stored have durable:
    "List.find (own_approval approval_id approver) (approvals (committed s1)) = Some ?a1"
    by simp
  from assms(5) have "Approval_status ?a1 \<noteq> ApprovalStatus_pending" by auto
  with stored have again: "process_approval approval_id d2 c2 approver t2 s1
      = ((False, Some ''Approval has already been processed''), s1)"
    by (rule process_approval_decided)
  from ok again stored durable show ?thesis
    unfolding s1_def by (simp add: Let_def)
qed


theorem C5_decide_twice_witness:
  "faults veto_session = []
   \<and> List.find (own_approval 1 (example_user 20)) (approvals (working veto_session))
       = Some (example_approval 1 20 ApprovalStatus_pending 0)
   \<and> Approval_status (example_approval 1 20 ApprovalStatus_pending 0) = ApprovalStatus_pending
   \<and> List.find (\<lambda>e. Expense_id e = Approval_expense_id (example_approval 1 20 ApprovalStatus_pending 0))
         (expenses (working veto_session)) = Some example_expense
   \<and> fst (process_approval 1 ApprovalStatus_approved (Some ''ok'') (example_user 20) 5 veto_session)
       = (True, None)
   \<and> fst (process_approval 1 ApprovalStatus_rejected None (example_user 20) 9
            (snd (process_approval 1 ApprovalStatus_approved (Some ''ok'') (example_user 20) 5
                    veto_session)))
       = (False, Some ''Approval has already been processed'')
   \<and> List.find (own_approval 1 (example_user 20))
         (approvals (committed
            (snd (process_approval 1 ApprovalStatus_rejected None (example_user 20) 9
               (snd (process_approval 1 ApprovalStatus_approved (Some ''ok'') (example_user 20) 5
                       veto_session))))))
       = Some ((example_approval 1 20 ApprovalStatus_pending 0)
                 \<lparr>Approval_status := ApprovalStatus_approved, Approval_comments := Some ''ok'',
                  Approval_approved_at := Some 5\<rparr>)"
  using C5_decide_twice [of veto_session 1 "example_user 20"
          "example_approval 1 20 ApprovalStatus_pending 0" example_expense
          ApprovalStatus_approved "Some ''ok''" 5 ApprovalStatus_rejected None 9]
  by (simp add: example_defs own_approval_def Let_def)

text \<open>
  Claim C10. The decision passed to \<open>process_approval\<close> is not checked: with the
  decision \<open>pending\<close> on a pending approval of the caller's own (and no commit
  failing) the call succeeds, the status stays \<open>pending\<close>, the decided-at timestamp
  is set, and the change is committed.
\<close>

theorem C10_decide_with_pending:
  assumes "faults s = []"
      and "List.find (own_approval approval_id approver) (approvals (working s)) = Some a"
      and "Approval_status a = ApprovalStatus_pending"
      and "List.find (\<lambda>e. Expense_id e = Approval_expense_id a) (expenses (working s)) = Some ex"
  shows "let s1 = snd (process_approval approval_id ApprovalStatus_pending comments approver now s) in
           fst (process_approval approval_id ApprovalStatus_pending comments approver now s)
             = (True, None)
         \<and> List.find (own_approval approval_id approver) (approvals (working s1))
             = Some (a\<lparr>Approval_status := ApprovalStatus_pending, Approval_comments := comments,
                        Approval_approved_at := Some now\<rparr>)
         \<and> committed s1 = working s1"
  using process_approval_success(1,4) [OF assms] process_approval_stored [OF assms]
  by (simp add: Let_def)

theorem C10_decide_with_pending_witness:
  "faults veto_session = []
   \<and> List.find (own_approval 1 (example_user 20)) (approvals (working veto_session))
       = Some (example_approval 1 20 ApprovalStatus_pending 0)
   \<and> Approval_status (example_approval 1 20 ApprovalStatus_pending 0) = ApprovalStatus_pending
   \<and> List.find (\<lambda>e. Expense_id e = Approval_expense_id (example_approval 1 20 ApprovalStatus_pending 0))
         (expenses (working veto_session)) = Some example_expense
   \<and> fst (process_approval 1 ApprovalStatus_pending None (example_user 20) 77 veto_session)
       = (True, None)
   \<and> map (\<lambda>a. (Approval_status a, Approval_approved_at a))
         (approvals (committed
            (snd (process_approval 1 ApprovalStatus_pending None (example_user 20) 77 veto_session))))
       = [(ApprovalStatus_pending, Some 77), (ApprovalStatus_rejected, None)]"
  using C10_decide_with_pending [of veto_session 1 "example_user 20"
          "example_approval 1 20 ApprovalStatus_pending 0" example_expense None 77]
  by (simp add: example_defs decide_defs aggregate_defs Let_def)

text \<open>
  Claim C6 says that no operation changes the status of a decided approval. The
  endpoint \<open>update_approval\<close>, documented as "only comments can be updated after
  approval/rejection", assigns the status of the request without looking at the
  current one and commits: an approved approval is rejected in the committed
  database, and with the status \<open>pending\<close> in the request it is pending again. The
  caller is answered with status 500, because the audit call that follows the commit
  raises.
\<close>

theorem C6_update_changes_decided_status:
  "map Approval_status (approvals (committed decided_session)) = [ApprovalStatus_approved]
   \<and> fst (update_approval 1 reject_update (example_user 20) decided_session)
       = Inl HTTP_500_INTERNAL_SERVER_ERROR
   \<and> map Approval_status
        (approvals (committed
           (snd (update_approval 1 reject_update (example_user 20) decided_session))))
       = [ApprovalStatus_rejected]
   \<and> map Approval_status
        (approvals (committed
           (snd (update_approval 1 (reject_update\<lparr>ApprovalUpdate_status := ApprovalStatus_pending\<rparr>)
                   (example_user 20) decided_session))))
       = [ApprovalStatus_pending]"
  by (simp add: example_defs decide_defs Let_def)

section \<open>Properties of workflow creation\<close>

text \<open>The audit entry written after the workflow's own commit holds the rule ids as
  \<open>UUID\<close> objects, which the JSON column cannot encode: whenever a rule applies, the
  operation ends in its exception handler and returns the empty list.\<close>

lemma rules_applied_not_serializable:
  "rules \<noteq> [] \<Longrightarrow>
     \<not> json_dumps_ok [(''approval_count'', PyInt),
                        (''rules_applied'', PyList (map (\<lambda>rule. PyUUID) rules))]"
  by (cases rules) (simp_all add: json_dumps_ok_def)

lemma create_approval_workflow_body_raises:
  assumes "rules \<noteq> []"
  shows "\<exists>e. fst (create_approval_workflow_body expense now rules s) = Inl e"
proof (cases "workflow_loop expense now (sort_key ApprovalRule_order_index rules) [] s")
  case (Pair r s1)
  show ?thesis
  proof (cases r)
    case (Inl e)
    with Pair show ?thesis by (simp add: create_approval_workflow_body_def)
  next
    case (Inr apps)
    show ?thesis
    proof (cases "commit s1")
      case (Pair c s2)
      with \<open>workflow_loop expense now (sort_key ApprovalRule_order_index rules) [] s = (r, s1)\<close>
        Inr rules_applied_not_serializable [OF assms]
      show ?thesis
        by (cases c) (simp_all add: create_approval_workflow_body_def log_action_def
            enum_column_def Let_def)
    qed
  qed
qed

lemma create_approval_workflow_returns_empty:
  "fst (create_approval_workflow expense now s) = []"
proof (cases "get_approval_rules (Expense_category_id expense) (Expense_company_id expense) s = []")
  case True
  then show ?thesis by (simp add: create_approval_workflow_def)
next
  case False
  from create_approval_workflow_body_raises [OF False, of expense now s]
  obtain e s1 where "create_approval_workflow_body expense now
      (get_approval_rules (Expense_category_id expense) (Expense_company_id expense) s) s = (Inl e, s1)"
    by (metis prod.collapse)
  with False show ?thesis by (simp add: create_approval_workflow_def Let_def)
qed

text \<open>
  Claim C7 says that a persistence failure partway leaves no approval behind and is
  reported as an error. The operation commits once after its loop and rolls back in
  its handler, but \<open>create_notification\<close> commits the shared session inside the loop.
  With two rules and the second commit failing, the first approval stays committed,
  and the result is the empty list, which is also the result for an expense with no
  rule. With no commit failing the same expense gets its two approvals committed.
\<close>

theorem C7_partial_workflow_stays_committed:
  "fst (create_approval_workflow example_expense 0 failing_session) = []
   \<and> fst (create_approval_workflow example_expense 0 no_rules_session) = []
   \<and> approvals (committed failing_session) = []
   \<and> approvals (committed (snd (create_approval_workflow example_expense 0 failing_session)))
       = [example_approval 100 20 ApprovalStatus_pending 0]
   \<and> map Approval_approver_id
        (approvals (committed (snd (create_approval_workflow example_expense 0 fresh_session))))
       = [20, 21]"
  by (simp add: example_defs workflow_defs Let_def)

section \<open>Properties of the overdue sweep\<close>

text \<open>The metadata of the first notification subtracts the loaded \<open>created_at\<close> from
  \<open>datetime.utcnow()\<close>, which raises; the handler answers with the empty list. So the
  sweep returns no approval and notifies nobody, whatever is overdue.\<close>

lemma notify_overdue_raises:
  "rows \<noteq> [] \<Longrightarrow> notify_overdue now rows s = (Inl TypeError, s)"
  by (cases rows) (simp_all add: days_overdue_def datetime_sub_def utcnow_def loaded_created_at_def)

lemma check_overdue_approvals_returns_nothing:
  "check_overdue_approvals self now s = ([], s)"
  by (cases "overdue_rows self now s = []")
    (simp_all add: check_overdue_approvals_def Let_def notify_overdue_raises)

text \<open>
  Claim C8 says that the sweep returns exactly the pending approvals created before
  \<open>now\<close> minus the threshold, so that one created four days ago is returned with the
  threshold of three days. The query selects that approval (and not the one created
  two days ago), but the call returns the empty list and leaves the session, the
  notifications included, as it was.
\<close>

theorem C8_overdue_sweep_returns_nothing:
  "overdue_threshold_days approval_service = 3
   \<and> map Approval_created_at (approvals (working sweep_session))
       = [sweep_now - timedelta_days 4, sweep_now - timedelta_days 2]
   \<and> overdue_rows approval_service sweep_now sweep_session
       = [example_approval 1 20 ApprovalStatus_pending (sweep_now - timedelta_days 4)]
   \<and> check_overdue_approvals approval_service sweep_now sweep_session = ([], sweep_session)"
  by (simp add: example_defs sweep_defs Let_def)

section \<open>Properties of the statistics\<close>







end
